theory Spec2Isabelle
  imports Complex_Main "HOL-Library.Char_ord" "HOL-Library.List_Lexorder"
    "HOL-Library.Product_Lexorder" "HOL-Library.Sublist" "HOL-Library.Multiset" "HOL-Library.Log_Nat"
begin

section \<open>Python strings and exceptions\<close>

text \<open>
  A Python \<open>str\<close> is modelled as a \<open>string\<close>: the list of its code points, each below 256.
  On that range the character classes below are the ones Python uses: \<open>str.strip()\<close> removes
  the characters for which \<open>str.isspace()\<close> holds, the pattern \<open>\d\<close> matches the decimal
  digits \<open>0\<close> to \<open>9\<close>, and \<open>str.isdigit()\<close> also accepts the superscript digits
  U+00B2, U+00B3 and U+00B9. Comparison of strings is lexicographic on code points, which is
  the order of \<open>HOL-Library.List_Lexorder\<close> over \<open>HOL-Library.Char_ord\<close>.
\<close>

datatype exn =
  IndexError | AttributeError | TypeError | ValueError
  | KeyError | OverflowError | JSONDecodeError | Timeout | ConnectionError | HTTPError
  | KeyboardInterrupt

text \<open>
  \<open>Timeout\<close>, \<open>ConnectionError\<close> and \<open>HTTPError\<close> are the subclasses of
  \<open>requests.RequestException\<close> that a request or \<open>raise_for_status\<close> raises. Every
  exception but \<open>KeyboardInterrupt\<close> is a subclass of \<open>Exception\<close>, so an
  \<open>except Exception\<close> clause does not catch \<open>KeyboardInterrupt\<close>.
\<close>

definition is_request_exception :: "exn \<Rightarrow> bool" where
  "is_request_exception e = (e = Timeout \<or> e = ConnectionError \<or> e = HTTPError)"

definition is_exception :: "exn \<Rightarrow> bool" where
  "is_exception e = (e \<noteq> KeyboardInterrupt)"

definition bind_exn :: "exn + 'a \<Rightarrow> ('a \<Rightarrow> exn + 'b) \<Rightarrow> exn + 'b" where
  "bind_exn m f = (case m of Inl e \<Rightarrow> Inl e | Inr x \<Rightarrow> f x)"

definition py_isspace :: "char \<Rightarrow> bool" where
  "py_isspace c =
     (let n = (of_char c :: nat)
      in (9 \<le> n \<and> n \<le> 13) \<or> (28 \<le> n \<and> n \<le> 32) \<or> n = 133 \<or> n = 160)"

definition re_digit :: "char \<Rightarrow> bool" where
  "re_digit c = (let n = (of_char c :: nat) in 48 \<le> n \<and> n \<le> 57)"

definition py_isdigit_char :: "char \<Rightarrow> bool" where
  "py_isdigit_char c =
     (let n = (of_char c :: nat) in (48 \<le> n \<and> n \<le> 57) \<or> n = 178 \<or> n = 179 \<or> n = 185)"

definition strip :: "string \<Rightarrow> string" where
  "strip s = rev (dropWhile py_isspace (rev (dropWhile py_isspace s)))"

definition remove_colons :: "string \<Rightarrow> string" where
  \<comment> \<open>\<open>s.replace(":", "")\<close>\<close>
  "remove_colons s = filter (\<lambda>c. c \<noteq> CHR '':'') s"

definition isdigit :: "string \<Rightarrow> bool" where
  \<comment> \<open>\<open>s.isdigit()\<close>: false on the empty string\<close>
  "isdigit s = (s \<noteq> [] \<and> list_all py_isdigit_char s)"

definition re_match_digits :: "nat \<Rightarrow> nat \<Rightarrow> string \<Rightarrow> bool" where
  \<comment> \<open>\<open>re.match(r'^\d{lo,hi}$', s)\<close>: \<open>$\<close> also matches just before one final newline\<close>
  "re_match_digits lo hi s =
     (let whole = (\<lambda>w. lo \<le> length w \<and> length w \<le> hi \<and> list_all re_digit w)
      in whole s \<or> (s \<noteq> [] \<and> last s = CHR 0x0A \<and> whole (butlast s)))"

definition getitem :: "string \<Rightarrow> nat \<Rightarrow> exn + char" where
  \<comment> \<open>\<open>s[i]\<close> for \<open>i \<ge> 0\<close>: IndexError out of range\<close>
  "getitem s i = (if i < length s then Inr (s ! i) else Inl IndexError)"

section \<open>Time formatting\<close>

text \<open>
  Both functions are modelled on a \<open>str\<close> argument. None of the operations of
  \<open>format_time_for_api\<close> (\<open>strip\<close>, \<open>replace\<close>, \<open>re.match\<close>, \<open>isdigit\<close>, \<open>len\<close>, string
  formatting) can raise on a \<open>str\<close>, so it is a function to \<open>string\<close>;
  \<open>format_time_for_display\<close> indexes its argument, which raises IndexError out of range, so
  its result is a sum.
\<close>

definition format_time_for_api :: "string \<Rightarrow> string" where
  "format_time_for_api time_str0 =
     (let time_str = remove_colons (strip time_str0)
      in if re_match_digits 3 4 time_str \<and> isdigit time_str
         then (if length time_str = 4 then time_str
               else if length time_str = 3 then ''0'' @ time_str
               else ''0000'')
         else ''0000'')"

definition format_time_for_display :: "string \<Rightarrow> exn + string" where
  "format_time_for_display time_str0 =
     (let time_str = remove_colons (strip time_str0)
      in if re_match_digits 4 4 time_str \<and> isdigit time_str
         then Inr (take 2 time_str @ '':'' @ drop 2 time_str)
         else if length time_str = 5
              then (case getitem time_str 2 of
                      Inl e \<Rightarrow> Inl e
                    | Inr c \<Rightarrow> if c = CHR '':'' then Inr time_str else Inr time_str)
              else Inr time_str)"

definition numeric_3_or_4 :: "string \<Rightarrow> bool" where
  \<comment> \<open>a 3- or 4-digit numeric string\<close>
  "numeric_3_or_4 s = ((length s = 3 \<or> length s = 4) \<and> list_all re_digit s)"

section \<open>Slots\<close>

text \<open>
  A slot is the 6-tuple \<open>(bk_time, bk_cos, bk_part, course_nm, co_div, status_r)\<close> built by
  \<open>_fetch_tee_list\<close>. Its fields are modelled as strings, which is what the rows of the
  tee-list response carry. The two course category names and the four course display
  names of the source are written in Hangul; they are given here by the bytes of their
  UTF-8 encoding.
\<close>

record slot =
  bk_time :: string
  bk_cos :: string
  bk_part :: string
  course_nm :: string
  co_div :: string
  status_r :: string

definition yesul :: string where
  "yesul = [CHR 0xEC, CHR 0x98, CHR 0x88, CHR 0xEC, CHR 0x88, CHR 0xA0]"

definition munhwa :: string where
  "munhwa = [CHR 0xEB, CHR 0xAC, CHR 0xB8, CHR 0xED, CHR 0x99, CHR 0x94]"

definition course_detail_mapping :: "(string \<times> string) list" where
  "course_detail_mapping =
     [(''A'', yesul @ ''OUT''), (''B'', yesul @ ''IN''),
      (''C'', munhwa @ ''OUT''), (''D'', munhwa @ ''IN'')]"

definition CO_DIV :: string where
  "CO_DIV = ''204''"

section \<open>Filtering and sorting\<close>

text \<open>
  \<open>target_course_names\<close> is either one \<open>str\<close> or a list of names; the test
  \<open>"All" in target_course_names\<close> is a substring test on a \<open>str\<close> and a membership test
  on a list.
\<close>

datatype course_names = Single string | Several "string list"

fun contains_str :: "string \<Rightarrow> string \<Rightarrow> bool" where
  "contains_str sub [] = (sub = [])"
| "contains_str sub (c # cs) = (prefix sub (c # cs) \<or> contains_str sub cs)"

definition course_map :: "(string \<times> string list) list" where
  "course_map =
     [(''All'', [''A'', ''B'', ''C'', ''D'']), (yesul, [''A'', ''B'']), (munhwa, [''C'', ''D''])]"

definition course_map_get :: "string \<Rightarrow> string list" where
  \<comment> \<open>\<open>course_map.get(name, [name])\<close>\<close>
  "course_map_get name = (case map_of course_map name of Some codes \<Rightarrow> codes | None \<Rightarrow> [name])"

definition course_list :: "course_names \<Rightarrow> string list" where
  "course_list names = (case names of Single s \<Rightarrow> [s] | Several ns \<Rightarrow> ns)"

definition target_course_codes :: "course_names \<Rightarrow> string set" where
  "target_course_codes names =
     fold (\<lambda>name codes. codes \<union> set (course_map_get name)) (course_list names) {}"

definition all_in_names :: "course_names \<Rightarrow> bool" where
  \<comment> \<open>\<open>"All" in target_course_names\<close>\<close>
  "all_in_names names =
     (case names of Single s \<Rightarrow> contains_str ''All'' s | Several ns \<Rightarrow> ''All'' \<in> set ns)"

definition course_ok :: "course_names \<Rightarrow> string \<Rightarrow> bool" where
  \<comment> \<open>\<open>"All" in target_course_names or cos_val in target_course_codes\<close>\<close>
  "course_ok names cos_val = (all_in_names names \<or> cos_val \<in> target_course_codes names)"

definition keeps :: "string \<Rightarrow> string \<Rightarrow> course_names \<Rightarrow> slot \<Rightarrow> bool" where
  \<comment> \<open>the three nested tests of the filter loop\<close>
  "keeps start_time_api end_time_api names t =
     ((start_time_api \<le> bk_time t \<and> bk_time t \<le> end_time_api)
      \<and> course_ok names (bk_cos t)
      \<and> status_r t = ''OK'')"

definition sort_slot_key :: "slot \<Rightarrow> string \<times> string" where
  \<comment> \<open>\<open>lambda x: (x[0], x[1])\<close>\<close>
  "sort_slot_key x = (bk_time x, bk_cos x)"

definition py_sort :: "('a \<Rightarrow> 'k::linorder) \<Rightarrow> bool \<Rightarrow> 'a list \<Rightarrow> 'a list" where
  \<comment> \<open>\<open>list.sort(key=..., reverse=...)\<close>: a stable sort; with \<open>reverse\<close> the list is
      reversed, sorted stably and reversed again\<close>
  "py_sort key reverse xs = (if reverse then rev (sort_key key (rev xs)) else sort_key key xs)"

text \<open>
  The log lines of \<open>filter_and_sort_times\<close> are not part of its result and are left out.
\<close>

definition filter_and_sort_times ::
  "slot list \<Rightarrow> string \<Rightarrow> string \<Rightarrow> course_names \<Rightarrow> bool \<Rightarrow> slot list" where
  "filter_and_sort_times all_times start_time_str end_time_str target_course_names is_reverse =
     (let start_time_api = format_time_for_api start_time_str;
          end_time_api = format_time_for_api end_time_str;
          filtered_times = filter (keeps start_time_api end_time_api target_course_names) all_times
      in py_sort sort_slot_key is_reverse filtered_times)"

section \<open>Requests, the stop signal and the log\<close>

text \<open>
  The functions below send requests through the session and poll \<open>stop_event\<close>, which
  another thread may set. Both are given by the world the function runs in:
  \<open>stop_at w n\<close> is what the \<open>n\<close>-th call of \<open>stop_event.is_set()\<close> returns and
  \<open>reply_at w n\<close> is the outcome of the \<open>n\<close>-th request: either the request (or
  \<open>raise_for_status\<close>) raises, or a body arrives, which parses as JSON (\<open>Some\<close>) or does
  not (\<open>None\<close>). A \<open>trace\<close> counts the reads of the signal and the requests made so far
  and holds the log lines of \<open>run_api_booking\<close>; \<open>time.sleep\<close> and the other log lines
  are left out.
\<close>

datatype 'b reply = Raised exn | Replied "'b option"

record 'b world =
  stop_at :: "nat \<Rightarrow> bool"
  reply_at :: "nat \<Rightarrow> 'b reply"

datatype log_event =
  NoMatchingTimes
  | TryingTop nat
  | TestModeNoTimes
  | TestModePreview string string
  | AttemptSlot nat string string
  | Interrupted
  | FinalSuccess nat string string
  | TopFailed nat

record trace =
  stop_reads :: nat
  requests :: nat
  log :: "log_event list"

definition read_stop :: "trace \<Rightarrow> trace" where
  "read_stop tr = tr\<lparr>stop_reads := Suc (stop_reads tr)\<rparr>"

definition sent :: "trace \<Rightarrow> trace" where
  "sent tr = tr\<lparr>requests := Suc (requests tr)\<rparr>"

definition log_message :: "log_event \<Rightarrow> trace \<Rightarrow> trace" where
  "log_message ev tr = tr\<lparr>log := log tr @ [ev]\<rparr>"

section \<open>Fetching the tee list\<close>

text \<open>
  A row of the tee-list response holds strings under the keys \<open>BK_TIME\<close>, \<open>BK_COS\<close>,
  \<open>BK_PART\<close> and \<open>R\<close>, each of which may be absent; the body holds \<open>resultCode\<close>,
  \<open>resultMessage\<close> and \<open>rows\<close>, each of which may be absent. \<open>t.get('BK_TIME')\<close> of a row
  without the key is \<open>None\<close>, which \<open>format_time_for_api\<close> turns into the string \<open>None\<close>.
\<close>

record tee_row =
  row_BK_TIME :: "string option"
  row_BK_COS :: "string option"
  row_BK_PART :: "string option"
  row_R :: "string option"

record tee_data =
  resultCode :: "string option"
  resultMessage :: "string option"
  rows :: "tee_row list option"

definition row_slots :: "tee_row \<Rightarrow> slot list" where
  \<comment> \<open>one pass of the loop over \<open>total_rows\<close>: the slots appended to \<open>times\<close>\<close>
  "row_slots t =
     (let bk_time = format_time_for_api (case row_BK_TIME t of None \<Rightarrow> ''None'' | Some s \<Rightarrow> s);
          bk_cos = row_BK_COS t;
          bk_part = (case row_BK_PART t of
                       Some p \<Rightarrow> p
                     | None \<Rightarrow> if bk_cos = Some ''A'' \<or> bk_cos = Some ''C'' then ''1'' else ''2'');
          course_nm = (case bk_cos of
                         None \<Rightarrow> ''Unknown''
                       | Some c \<Rightarrow> (case map_of course_detail_mapping c of
                                     Some nm \<Rightarrow> nm
                                   | None \<Rightarrow> ''Unknown''))
      in case bk_cos of
           None \<Rightarrow> []
         | Some c \<Rightarrow>
             if bk_time \<noteq> [] \<and> c \<noteq> []
             then [\<lparr>bk_time = bk_time, bk_cos = c, bk_part = bk_part, course_nm = course_nm,
                    co_div = CO_DIV,
                    status_r = (case row_R t of Some r \<Rightarrow> r | None \<Rightarrow> ''N/A'')\<rparr>]
             else [])"

definition fetch_try :: "tee_data reply \<Rightarrow> exn + slot list" where
  \<comment> \<open>the \<open>try\<close> block of one attempt; \<open>Inr\<close> is a \<open>return\<close>\<close>
  "fetch_try r =
     (case r of
        Raised e \<Rightarrow> Inl e
      | Replied None \<Rightarrow> Inl JSONDecodeError
      | Replied (Some data) \<Rightarrow>
          if (case resultCode data of Some c \<Rightarrow> c \<noteq> ''0000'' | None \<Rightarrow> False)
          then Inr []
          else Inr (concat (map row_slots (case rows data of None \<Rightarrow> [] | Some rs \<Rightarrow> rs))))"

fun fetch_attempts :: "tee_data world \<Rightarrow> nat \<Rightarrow> trace \<Rightarrow> exn + (slot list \<times> trace)" where
  \<comment> \<open>the \<open>for attempt in range(max_retries)\<close> loop with that many passes left\<close>
  "fetch_attempts w 0 tr = Inr ([], tr)"
| "fetch_attempts w (Suc n) tr =
     (if stop_at w (stop_reads tr) then Inr ([], read_stop tr)
      else case fetch_try (reply_at w (requests tr)) of
             Inr fetched \<Rightarrow> Inr (fetched, sent (read_stop tr))
           | Inl e \<Rightarrow>
               if e = JSONDecodeError then fetch_attempts w n (sent (read_stop tr))
               else if is_request_exception e then fetch_attempts w n (sent (read_stop tr))
               else if is_exception e then Inr ([], sent (read_stop tr))
               else Inl e)"

definition fetch_tee_list :: "tee_data world \<Rightarrow> trace \<Rightarrow> exn + (slot list \<times> trace)" where
  \<comment> \<open>\<open>_fetch_tee_list\<close> with the default \<open>max_retries=2\<close>\<close>
  "fetch_tee_list w tr = fetch_attempts w 2 tr"





section \<open>The reservation request\<close>

text \<open>
  The body of the reservation response is any JSON value; \<open>JObj\<close> holds the items of the
  parsed dictionary.
\<close>

datatype json =
  JNull | JBool bool | JNum rat | JStr string | JArr "json list" | JObj "(string \<times> json) list"

definition json_get :: "json \<Rightarrow> string \<Rightarrow> exn + json" where
  \<comment> \<open>\<open>data.get(key)\<close>: AttributeError when \<open>data\<close> is not a dictionary\<close>
  "json_get data key =
     (case data of
        JObj kvs \<Rightarrow> Inr (case map_of kvs key of Some v \<Rightarrow> v | None \<Rightarrow> JNull)
      | _ \<Rightarrow> Inl AttributeError)"

definition reservation_succeeded :: "json \<Rightarrow> exn + bool" where
  \<comment> \<open>\<open>data.get('resultCode') == '0000' or data.get('R') == 'OK' or
      data.get('status') == 'success'\<close>\<close>
  "reservation_succeeded data =
     bind_exn (json_get data ''resultCode'') (\<lambda>rc.
       if rc = JStr ''0000'' then Inr True
       else bind_exn (json_get data ''R'') (\<lambda>r.
         if r = JStr ''OK'' then Inr True
         else bind_exn (json_get data ''status'') (\<lambda>s. Inr (s = JStr ''success''))))"

definition reservation_try :: "json reply \<Rightarrow> exn + bool" where
  \<comment> \<open>the \<open>try\<close> blocks of one attempt; \<open>Inr\<close> is a \<open>return\<close>\<close>
  "reservation_try r =
     (case r of
        Raised e \<Rightarrow> Inl e
      | Replied None \<Rightarrow> Inl JSONDecodeError
      | Replied (Some data) \<Rightarrow> reservation_succeeded data)"

fun reservation_attempts ::
  "json world \<Rightarrow> nat \<Rightarrow> nat \<Rightarrow> nat \<Rightarrow> trace \<Rightarrow> exn + (bool \<times> trace)" where
  \<comment> \<open>the \<open>for attempt in range(max_retries)\<close> loop at \<open>attempt\<close> with \<open>n\<close> passes left\<close>
  "reservation_attempts w max_retries attempt 0 tr = Inr (False, tr)"
| "reservation_attempts w max_retries attempt (Suc n) tr =
     (if stop_at w (stop_reads tr) then Inr (False, read_stop tr)
      else case reservation_try (reply_at w (requests tr)) of
             Inr success \<Rightarrow> Inr (success, sent (read_stop tr))
           | Inl e \<Rightarrow>
               if e = JSONDecodeError \<or> e = Timeout \<or> is_request_exception e
               then (if attempt < max_retries - 1
                     then reservation_attempts w max_retries (Suc attempt) n (sent (read_stop tr))
                     else Inr (False, sent (read_stop tr)))
               else if is_exception e then Inr (False, sent (read_stop tr))
               else Inl e)"

definition try_reservation ::
  "json world \<Rightarrow> trace \<Rightarrow> string \<Rightarrow> string \<Rightarrow> string \<Rightarrow> exn + (bool \<times> trace)" where
  "try_reservation w tr date course_code time_api =
     bind_exn (format_time_for_display time_api) (\<lambda>time_display.
       reservation_attempts w 2 0 2 tr)"

definition contains_success_marker :: "json \<Rightarrow> bool" where
  \<comment> \<open>the response contains one of the three success markers of the protocol\<close>
  "contains_success_marker data =
     (case data of
        JObj kvs \<Rightarrow>
          map_of kvs ''resultCode'' = Some (JStr ''0000'')
          \<or> map_of kvs ''R'' = Some (JStr ''OK'')
          \<or> map_of kvs ''status'' = Some (JStr ''success'')
      | _ \<Rightarrow> False)"

definition transient :: "'b reply \<Rightarrow> bool" where
  \<comment> \<open>a transient failure: a timeout, a network or HTTP error, or a body that is not JSON\<close>
  "transient r =
     (case r of
        Raised e \<Rightarrow> e = JSONDecodeError \<or> is_request_exception e
      | Replied None \<Rightarrow> True
      | Replied (Some data) \<Rightarrow> False)"

section \<open>Booking\<close>

record inputs =
  target_date :: "string option"
  test_mode :: "bool option"

fun booking_loop ::
  "json world \<Rightarrow> string \<Rightarrow> nat \<Rightarrow> slot list \<Rightarrow> trace \<Rightarrow> exn + (bool \<times> trace)" where
  \<comment> \<open>\<open>for i, time_info in enumerate(sorted_available_times[:5])\<close>, from index \<open>i\<close> on\<close>
  "booking_loop w date i [] tr = Inr (False, tr)"
| "booking_loop w date i (time_info # rest) tr =
     (if stop_at w (stop_reads tr) then Inr (False, log_message Interrupted (read_stop tr))
      else case format_time_for_display (bk_time time_info) of
             Inl e \<Rightarrow> Inl e
           | Inr time_display \<Rightarrow>
               (case try_reservation w
                       (log_message (AttemptSlot (i + 1) (course_nm time_info) time_display)
                          (read_stop tr))
                       date (bk_cos time_info) (bk_time time_info) of
                  Inl e \<Rightarrow> Inl e
                | Inr (success, tr') \<Rightarrow>
                    if success
                    then Inr (True,
                           log_message (FinalSuccess (i + 1) (course_nm time_info) time_display) tr')
                    else booking_loop w date (i + 1) rest tr'))"

definition run_api_booking ::
  "json world \<Rightarrow> trace \<Rightarrow> inputs \<Rightarrow> slot list \<Rightarrow> exn + (bool \<times> trace)" where
  "run_api_booking w tr inp sorted_available_times =
     (if sorted_available_times = [] then Inr (False, log_message NoMatchingTimes tr)
      else case target_date inp of
             None \<Rightarrow> Inl KeyError
           | Some date \<Rightarrow>
               let tm = (case test_mode inp of None \<Rightarrow> True | Some b \<Rightarrow> b);
                   tr1 = log_message (TryingTop (min 5 (length sorted_available_times))) tr
               in if tm
                  then (if sorted_available_times = []
                        then Inr (True, log_message TestModeNoTimes tr1)
                        else case sorted_available_times of
                               [] \<Rightarrow> Inl IndexError
                             | first_time_info # rest \<Rightarrow>
                                 bind_exn (format_time_for_display (bk_time first_time_info))
                                   (\<lambda>shown. Inr (True,
                                      log_message (TestModePreview shown (course_nm first_time_info)) tr1)))
                  else bind_exn (booking_loop w date 0 (take 5 sorted_available_times) tr1)
                         (\<lambda>(success, tr2).
                            if \<not> success
                            then (if \<not> stop_at w (stop_reads tr2)
                                  then Inr (success,
                                         log_message (TopFailed (min 5 (length sorted_available_times)))
                                           (read_stop tr2))
                                  else Inr (success, read_stop tr2))
                            else Inr (success, tr2)))"

section \<open>The clock offset\<close>

text \<open>
  A duration (\<open>timedelta\<close>) is a number of microseconds. A Python float is the rational
  number it stands for; \<open>to_double\<close> rounds a rational to the nearest double, ties to
  even, as every float operation of the source does with its exact result (the
  exponent range of a double is not modelled: the values at hand lie far inside it).
\<close>

definition pow2 :: "int \<Rightarrow> rat" where
  "pow2 e = (if 0 \<le> e then 2 ^ nat e else 1 / 2 ^ nat (- e))"

definition binade :: "rat \<Rightarrow> int" where
  \<comment> \<open>for \<open>x \<noteq> 0\<close>, the exponent \<open>e\<close> with \<open>2 ^ e \<le> \<bar>x\<bar> < 2 ^ (e + 1)\<close>\<close>
  "binade x =
     (let (a, b) = quotient_of \<bar>x\<bar>; e0 = bitlen a - bitlen b
      in if pow2 e0 \<le> \<bar>x\<bar> then e0 else e0 - 1)"

definition round_half_even :: "rat \<Rightarrow> int" where
  "round_half_even x =
     (let f = \<lfloor>x\<rfloor>; d = x - of_int f
      in if d < 1 / 2 then f else if 1 / 2 < d then f + 1 else if even f then f else f + 1)"

definition to_double :: "rat \<Rightarrow> rat" where
  \<comment> \<open>53 significant bits: the unit in the last place of \<open>x\<close> is \<open>2 ^ (binade x - 52)\<close>\<close>
  "to_double x =
     (if x = 0 then 0
      else let ulp = pow2 (binade x - 52) in of_int (round_half_even (x / ulp)) * ulp)"

definition total_seconds :: "int \<Rightarrow> rat" where
  \<comment> \<open>\<open>timedelta.total_seconds()\<close>: the microseconds divided by \<open>10 ** 6\<close>, as a float\<close>
  "total_seconds d = to_double (of_int d / 1000000)"








datatype probe = ProbeRaised exn | NoDateHeader | DateHeader "int option" int

definition probe_try :: "probe \<Rightarrow> exn + rat option" where
  \<comment> \<open>the \<open>try\<close> block of one attempt; \<open>Inr (Some d)\<close> is \<open>return d\<close>\<close>
  "probe_try p =
     (case p of
        ProbeRaised e \<Rightarrow> Inl e
      | NoDateHeader \<Rightarrow> Inr None
      | DateHeader None local_time \<Rightarrow> Inl ValueError
      | DateHeader (Some server_time) local_time \<Rightarrow> Inr (Some (total_seconds (server_time - local_time))))"

fun offset_attempts :: "(nat \<Rightarrow> probe) \<Rightarrow> nat \<Rightarrow> nat \<Rightarrow> exn + rat" where
  \<comment> \<open>the \<open>for attempt in range(max_retries)\<close> loop at \<open>attempt\<close> with \<open>n\<close> passes left\<close>
  "offset_attempts env attempt 0 = Inr 0"
| "offset_attempts env attempt (Suc n) =
     (case probe_try (env attempt) of
        Inr (Some time_difference) \<Rightarrow> Inr time_difference
      | Inr None \<Rightarrow> offset_attempts env (Suc attempt) n
      | Inl e \<Rightarrow>
          if is_request_exception e then offset_attempts env (Suc attempt) n
          else if is_exception e then Inr 0
          else Inl e)"

definition get_server_time_offset :: "(nat \<Rightarrow> probe) \<Rightarrow> exn + rat" where
  "get_server_time_offset env = offset_attempts env 0 5"

definition probe_failed :: "probe \<Rightarrow> bool" where
  \<comment> \<open>a failed probe: a request error or no \<open>Date\<close> header\<close>
  "probe_failed p =
     (case p of ProbeRaised e \<Rightarrow> is_request_exception e | NoDateHeader \<Rightarrow> True
      | DateHeader s l \<Rightarrow> False)"


section \<open>Properties of the time formatting\<close>

lemma newline_not_isdigit: "\<not> py_isdigit_char (CHR 0x0A)"
  by (simp add: py_isdigit_char_def)

lemma re_match_isdigit_whole:
  assumes "re_match_digits lo hi s" "isdigit s"
  shows "lo \<le> length s \<and> length s \<le> hi \<and> list_all re_digit s"
proof -
  have "\<not> (s \<noteq> [] \<and> last s = CHR 0x0A)"
  proof
    assume h: "s \<noteq> [] \<and> last s = CHR 0x0A"
    then have "CHR 0x0A \<in> set s" by (metis last_in_set)
    with assms(2) have "py_isdigit_char (CHR 0x0A)"
      by (auto simp: isdigit_def list_all_iff)
    with newline_not_isdigit show False by simp
  qed
  with assms(1) show ?thesis
    by (auto simp: re_match_digits_def Let_def)
qed

lemma re_digit_isdigit: "list_all re_digit s \<Longrightarrow> s \<noteq> [] \<Longrightarrow> isdigit s"
  by (auto simp: isdigit_def list_all_iff re_digit_def py_isdigit_char_def Let_def)

lemma digits_test_iff:
  "0 < lo \<Longrightarrow>
   (re_match_digits lo hi s \<and> isdigit s) = (lo \<le> length s \<and> length s \<le> hi \<and> list_all re_digit s)"
proof
  assume "re_match_digits lo hi s \<and> isdigit s"
  then show "lo \<le> length s \<and> length s \<le> hi \<and> list_all re_digit s"
    using re_match_isdigit_whole by blast
next
  assume pos: "0 < lo" and h: "lo \<le> length s \<and> length s \<le> hi \<and> list_all re_digit s"
  then have "s \<noteq> []" by auto
  with h show "re_match_digits lo hi s \<and> isdigit s"
    by (simp add: re_match_digits_def Let_def re_digit_isdigit)
qed

text \<open>
  What \<open>format_time_for_api\<close> computes: with \<open>n\<close> the argument stripped of surrounding
  whitespace and of its colons, \<open>n\<close> itself when it is four digits, \<open>0n\<close> when it is three
  digits, and \<open>0000\<close> otherwise.
\<close>

lemma format_time_for_api_eq:
  "format_time_for_api s =
     (let n = remove_colons (strip s)
      in if numeric_3_or_4 n then (if length n = 4 then n else ''0'' @ n) else ''0000'')"
proof -
  have "(re_match_digits 3 4 n \<and> isdigit n) = numeric_3_or_4 n" for n
    using digits_test_iff [of 3 4 n] by (auto simp: numeric_3_or_4_def)
  then show ?thesis
    by (auto simp: format_time_for_api_def Let_def numeric_3_or_4_def)
qed

text \<open>
  \<open>format_time_for_display\<close> never raises: the index \<open>time_str[2]\<close> is read only when the
  length is 5.
\<close>

lemma format_time_for_display_eq:
  "format_time_for_display s =
     (let n = remove_colons (strip s)
      in if length n = 4 \<and> list_all re_digit n then Inr (take 2 n @ '':'' @ drop 2 n) else Inr n)"
proof -
  have "(re_match_digits 4 4 n \<and> isdigit n) = (length n = 4 \<and> list_all re_digit n)" for n
    using digits_test_iff [of 4 4 n] by auto
  then show ?thesis
    by (auto simp: format_time_for_display_def Let_def getitem_def)
qed

text \<open>
  C9, as stated, fails: \<open>07:00\<close> is not a 3- or 4-digit numeric string, and
  \<open>format_time_for_api\<close> returns \<open>0700\<close> for it, not the sentinel.
\<close>

theorem format_time_for_api_colon_counterexample:
  "\<not> numeric_3_or_4 ''07:00'' \<and> format_time_for_api ''07:00'' = ''0700''
   \<and> format_time_for_api ''07:00'' \<noteq> ''0000''"
  by code_simp

text \<open>
  C9 (amended). For every input string neither function raises. \<open>format_time_for_api\<close>
  returns the sentinel \<open>0000\<close> on every input that, once stripped of surrounding whitespace
  and of its colons, is not a 3- or 4-digit numeric string; \<open>format_time_for_display\<close>
  returns a value on every input, and on an input whose stripped, colon-free form is not
  four digits that value is the stripped, colon-free form.
\<close>

theorem format_time_never_raise:
  "(\<exists>r. format_time_for_display s = Inr r)
   \<and> (\<not> numeric_3_or_4 (remove_colons (strip s)) \<longrightarrow> format_time_for_api s = ''0000'')
   \<and> (\<not> (length (remove_colons (strip s)) = 4 \<and> list_all re_digit (remove_colons (strip s)))
        \<longrightarrow> format_time_for_display s = Inr (remove_colons (strip s)))"
  by (simp add: format_time_for_api_eq format_time_for_display_eq Let_def)

theorem format_time_never_raise_witness:
  "\<not> numeric_3_or_4 (remove_colons (strip '' 7:3x ''))
   \<and> format_time_for_api '' 7:3x '' = ''0000''
   \<and> format_time_for_display '' 7:3x '' = Inr ''73x''"
proof -
  have n: "remove_colons (strip '' 7:3x '') = ''73x''" by code_simp
  have h: "\<not> numeric_3_or_4 ''73x''" by code_simp
  have l: "\<not> (length ''73x'' = 4 \<and> list_all re_digit ''73x'')" by simp
  from format_time_never_raise [of "'' 7:3x ''"] n h l show ?thesis by simp
qed

section \<open>Properties of the filter and of the ranking\<close>

lemma set_py_sort: "set (py_sort k r xs) = set xs"
  by (simp add: py_sort_def)


lemma sorted_py_sort:
  "sorted (map k (py_sort k False xs))" "sorted (rev (map k (py_sort k True xs)))"
  by (simp_all add: py_sort_def rev_map)

lemma set_filter_and_sort_times:
  "set (filter_and_sort_times ts s e names r) =
     {t \<in> set ts. keeps (format_time_for_api s) (format_time_for_api e) names t}"
  by (simp add: filter_and_sort_times_def Let_def set_py_sort)


lemma sorted_filter_and_sort_times:
  "sorted (map sort_slot_key (filter_and_sort_times ts s e names False))"
  "sorted (rev (map sort_slot_key (filter_and_sort_times ts s e names True)))"
  by (simp_all add: filter_and_sort_times_def Let_def sorted_py_sort)

lemma key_le_iff:
  "(sort_slot_key x \<le> sort_slot_key y) =
     (bk_time x \<le> bk_time y \<and> (bk_time x = bk_time y \<longrightarrow> bk_cos x \<le> bk_cos y))"
  by (auto simp: sort_slot_key_def less_eq_prod_def)

text \<open>
  C1, as stated, fails: with the descending direction two bookable slots at 07:00 on
  courses A and B come out as B, then A. The tie-break is flipped together with the
  order of the times.
\<close>

theorem descending_tie_break_counterexample:
  "filter_and_sort_times
     [\<lparr>bk_time = ''0700'', bk_cos = ''A'', bk_part = ''1'', course_nm = ''A'',
        co_div = ''204'', status_r = ''OK''\<rparr>,
      \<lparr>bk_time = ''0700'', bk_cos = ''B'', bk_part = ''2'', course_nm = ''B'',
        co_div = ''204'', status_r = ''OK''\<rparr>]
     ''07:00'' ''08:00'' (Several [''All'']) True
   = [\<lparr>bk_time = ''0700'', bk_cos = ''B'', bk_part = ''2'', course_nm = ''B'',
        co_div = ''204'', status_r = ''OK''\<rparr>,
      \<lparr>bk_time = ''0700'', bk_cos = ''A'', bk_part = ''1'', course_nm = ''A'',
        co_div = ''204'', status_r = ''OK''\<rparr>]
   \<and> \<not> (''B'' \<le> ''A'')"
  by code_simp

text \<open>
  C1 (amended). For every slot sequence, window, course filter and direction, the output
  of \<open>filter_and_sort_times\<close> is non-decreasing in time when the direction is ascending and
  non-increasing when it is descending; slots with equal time appear in ascending order
  of course code when the direction is ascending and in descending order of course code
  when it is descending.
\<close>

theorem filter_and_sort_times_order:
  assumes "i < j" "j < length (filter_and_sort_times ts s e names r)"
  shows "let out = filter_and_sort_times ts s e names r
         in if r
            then bk_time (out ! j) \<le> bk_time (out ! i)
                 \<and> (bk_time (out ! i) = bk_time (out ! j) \<longrightarrow> bk_cos (out ! j) \<le> bk_cos (out ! i))
            else bk_time (out ! i) \<le> bk_time (out ! j)
                 \<and> (bk_time (out ! i) = bk_time (out ! j) \<longrightarrow> bk_cos (out ! i) \<le> bk_cos (out ! j))"
proof (cases r)
  case False
  let ?out = "filter_and_sort_times ts s e names False"
  have "sorted (map sort_slot_key ?out)" by (rule sorted_filter_and_sort_times)
  with assms False have "map sort_slot_key ?out ! i \<le> map sort_slot_key ?out ! j"
    by (simp add: sorted_iff_nth_mono del: nth_map)
  with assms False have "sort_slot_key (?out ! i) \<le> sort_slot_key (?out ! j)" by simp
  with False show ?thesis by (simp add: key_le_iff Let_def)
next
  case True
  let ?out = "filter_and_sort_times ts s e names True"
  have "sorted (rev (map sort_slot_key ?out))" by (rule sorted_filter_and_sort_times)
  with assms True have "map sort_slot_key ?out ! j \<le> map sort_slot_key ?out ! i"
    by (simp add: sorted_rev_iff_nth_mono del: nth_map)
  with assms True have "sort_slot_key (?out ! j) \<le> sort_slot_key (?out ! i)" by simp
  with True show ?thesis by (auto simp: key_le_iff Let_def)
qed

theorem filter_and_sort_times_order_witness:
  "(0::nat) < 1
   \<and> 1 < length (filter_and_sort_times
        [\<lparr>bk_time = ''0700'', bk_cos = ''A'', bk_part = ''1'', course_nm = ''A'',
           co_div = ''204'', status_r = ''OK''\<rparr>,
         \<lparr>bk_time = ''0730'', bk_cos = ''C'', bk_part = ''2'', course_nm = ''C'',
           co_div = ''204'', status_r = ''OK''\<rparr>]
        ''07:00'' ''08:00'' (Several [''All'']) True)
   \<and> bk_time (filter_and_sort_times
        [\<lparr>bk_time = ''0700'', bk_cos = ''A'', bk_part = ''1'', course_nm = ''A'',
           co_div = ''204'', status_r = ''OK''\<rparr>,
         \<lparr>bk_time = ''0730'', bk_cos = ''C'', bk_part = ''2'', course_nm = ''C'',
           co_div = ''204'', status_r = ''OK''\<rparr>]
        ''07:00'' ''08:00'' (Several [''All'']) True ! 1)
     \<le> bk_time (filter_and_sort_times
        [\<lparr>bk_time = ''0700'', bk_cos = ''A'', bk_part = ''1'', course_nm = ''A'',
           co_div = ''204'', status_r = ''OK''\<rparr>,
         \<lparr>bk_time = ''0730'', bk_cos = ''C'', bk_part = ''2'', course_nm = ''C'',
           co_div = ''204'', status_r = ''OK''\<rparr>]
        ''07:00'' ''08:00'' (Several [''All'']) True ! 0)"
proof -
  let ?ts = "[\<lparr>bk_time = ''0700'', bk_cos = ''A'', bk_part = ''1'', course_nm = ''A'',
                co_div = ''204'', status_r = ''OK''\<rparr>,
              \<lparr>bk_time = ''0730'', bk_cos = ''C'', bk_part = ''2'', course_nm = ''C'',
                co_div = ''204'', status_r = ''OK''\<rparr>]"
  have len: "length (filter_and_sort_times ?ts ''07:00'' ''08:00'' (Several [''All'']) True) = 2"
    by code_simp
  then have h: "1 < length (filter_and_sort_times ?ts ''07:00'' ''08:00'' (Several [''All'']) True)"
    by simp
  from filter_and_sort_times_order [OF zero_less_one h] h show ?thesis
    by (simp add: Let_def)
qed




lemma target_single:
  assumes "name \<noteq> ''All''" "name \<noteq> yesul" "name \<noteq> munhwa"
  shows "target_course_codes (Several [name]) = {name}"
    and "target_course_codes (Single name) = {name}"
  using assms
  by (simp_all add: target_course_codes_def course_list_def course_map_get_def course_map_def)

text \<open>
  A name other than \<open>All\<close> and the two category names, given in a list, is a literal
  course code: \<open>filter_and_sort_times\<close> keeps exactly the bookable slots of the window
  whose course code is that name.
\<close>

lemma unknown_name_in_list:
  assumes "name \<noteq> ''All''" "name \<noteq> yesul" "name \<noteq> munhwa"
  shows "t \<in> set (filter_and_sort_times ts s e (Several [name]) r) \<longleftrightarrow>
           t \<in> set ts
           \<and> format_time_for_api s \<le> bk_time t \<and> bk_time t \<le> format_time_for_api e
           \<and> bk_cos t = name \<and> status_r t = ''OK''"
  using assms
  by (auto simp: set_filter_and_sort_times keeps_def course_ok_def all_in_names_def target_single)

text \<open>
  C10. The name \<open>AllX\<close> is none of \<open>All\<close> and the two category names, and the selected
  course set for it is the name itself. Given in a list it is a literal course code,
  and a slot on course A does not pass. Given as one string, which the function turns
  into that same list for the selected set, the test \<open>"All" in target_course_names\<close> is
  made on the string and not on the list: it is a substring test, it holds, and the slot
  on course A is kept.
\<close>

theorem single_name_containing_all:
  "''AllX'' \<noteq> ''All'' \<and> ''AllX'' \<noteq> yesul \<and> ''AllX'' \<noteq> munhwa
   \<and> target_course_codes (Single ''AllX'') = {''AllX''}
   \<and> target_course_codes (Several [''AllX'']) = {''AllX''}
   \<and> filter_and_sort_times
        [\<lparr>bk_time = ''0700'', bk_cos = ''A'', bk_part = ''1'', course_nm = ''A'',
           co_div = ''204'', status_r = ''OK''\<rparr>]
        ''07:00'' ''08:00'' (Several [''AllX'']) False
      = []
   \<and> filter_and_sort_times
        [\<lparr>bk_time = ''0700'', bk_cos = ''A'', bk_part = ''1'', course_nm = ''A'',
           co_div = ''204'', status_r = ''OK''\<rparr>]
        ''07:00'' ''08:00'' (Single ''AllX'') False
      = [\<lparr>bk_time = ''0700'', bk_cos = ''A'', bk_part = ''1'', course_nm = ''A'',
           co_div = ''204'', status_r = ''OK''\<rparr>]"
  by code_simp

section \<open>Properties of the deduplication\<close>












section \<open>Properties of the reservation request\<close>

lemma format_time_for_display_Inr: "\<exists>r. format_time_for_display s = Inr r"
  by (simp add: format_time_for_display_eq Let_def)

lemma reservation_succeeded_eq:
  "reservation_succeeded data =
     (case data of JObj kvs \<Rightarrow> Inr (contains_success_marker data) | _ \<Rightarrow> Inl AttributeError)"
  by (cases data)
     (auto simp: reservation_succeeded_def json_get_def bind_exn_def contains_success_marker_def
           split: option.splits)

text \<open>
  A body that parses as JSON ends the loop at once: with the result of the marker test
  when it is a dictionary, with \<open>False\<close> through the \<open>except Exception\<close> clause when it is
  not (and then it contains no marker).
\<close>

lemma reservation_attempts_well_formed:
  assumes "\<not> stop_at w (stop_reads tr)" "reply_at w (requests tr) = Replied (Some data)"
  shows "reservation_attempts w mx a (Suc n) tr
         = Inr (contains_success_marker data, sent (read_stop tr))"
proof (cases data)
  case (JObj kvs)
  with assms show ?thesis
    by (simp add: reservation_try_def reservation_succeeded_eq)
next
qed (use assms in \<open>simp_all add: reservation_try_def reservation_succeeded_eq
       contains_success_marker_def is_request_exception_def is_exception_def\<close>)

lemma try_reservation_eq:
  "try_reservation w tr date c t = reservation_attempts w 2 0 2 tr"
  using format_time_for_display_Inr [of t] by (auto simp: try_reservation_def bind_exn_def)

lemma transient_try:
  "transient r \<Longrightarrow>
   \<exists>e. reservation_try r = Inl e \<and> (e = JSONDecodeError \<or> e = Timeout \<or> is_request_exception e)"
  by (auto simp: transient_def reservation_try_def split: reply.splits option.splits)

text \<open>
  C2. For every reservation response whose body parses as JSON, \<open>try_reservation\<close>
  returns success if and only if the response contains one of the three success markers
  (\<open>resultCode\<close> \<open>0000\<close>, \<open>R\<close> \<open>OK\<close>, \<open>status\<close> \<open>success\<close>): this holds for the response to
  the first attempt and for the response to the second attempt, made after a transient
  failure of the first. The stop signal is not set when the attempt starts, for the
  request is not sent otherwise.
\<close>

theorem try_reservation_success_iff_marker:
  "(\<not> stop_at w (stop_reads tr) \<and> reply_at w (requests tr) = Replied (Some data)
      \<longrightarrow> try_reservation w tr date course_code time_api
            = Inr (contains_success_marker data, sent (read_stop tr)))
   \<and> (\<not> stop_at w (stop_reads tr) \<and> transient (reply_at w (requests tr))
       \<and> \<not> stop_at w (Suc (stop_reads tr)) \<and> reply_at w (Suc (requests tr)) = Replied (Some data)
      \<longrightarrow> try_reservation w tr date course_code time_api
            = Inr (contains_success_marker data, sent (read_stop (sent (read_stop tr)))))"
proof (intro conjI impI)
  assume "\<not> stop_at w (stop_reads tr) \<and> reply_at w (requests tr) = Replied (Some data)"
  then have "reservation_attempts w 2 0 (Suc 1) tr
      = Inr (contains_success_marker data, sent (read_stop tr))"
    by (intro reservation_attempts_well_formed) simp_all
  then show "try_reservation w tr date course_code time_api
            = Inr (contains_success_marker data, sent (read_stop tr))"
    by (simp only: try_reservation_eq Suc_1)
next
  assume h: "\<not> stop_at w (stop_reads tr) \<and> transient (reply_at w (requests tr))
       \<and> \<not> stop_at w (Suc (stop_reads tr)) \<and> reply_at w (Suc (requests tr)) = Replied (Some data)"
  then obtain e where e: "reservation_try (reply_at w (requests tr)) = Inl e"
      "e = JSONDecodeError \<or> e = Timeout \<or> is_request_exception e"
    using transient_try by blast
  let ?tr1 = "sent (read_stop tr)"
  from h have s: "\<not> stop_at w (stop_reads ?tr1)" "reply_at w (requests ?tr1) = Replied (Some data)"
    by (simp_all add: sent_def read_stop_def)
  have "reservation_attempts w 2 0 (Suc (Suc 0)) tr = reservation_attempts w 2 (Suc 0) (Suc 0) ?tr1"
    using h e by auto
  also have "\<dots> = Inr (contains_success_marker data, sent (read_stop ?tr1))"
    using s by (rule reservation_attempts_well_formed)
  finally have "reservation_attempts w 2 0 (Suc (Suc 0)) tr
      = Inr (contains_success_marker data, sent (read_stop ?tr1))" .
  moreover have "Suc (Suc 0) = 2" by simp
  ultimately show "try_reservation w tr date course_code time_api
            = Inr (contains_success_marker data, sent (read_stop (sent (read_stop tr))))"
    by (simp only: try_reservation_eq)
qed

theorem try_reservation_success_iff_marker_witness:
  "try_reservation
     \<lparr>stop_at = (\<lambda>n. False),
      reply_at = (\<lambda>n. Replied (Some (JObj [(''status'', JStr ''success'')])))\<rparr>
     \<lparr>stop_reads = 0, requests = 0, log = []\<rparr> ''20250101'' ''A'' ''0700''
   = Inr (True, \<lparr>stop_reads = 1, requests = 1, log = []\<rparr>)
   \<and> try_reservation
     \<lparr>stop_at = (\<lambda>n. False),
      reply_at = (\<lambda>n. if n = 0 then Raised Timeout
                      else Replied (Some (JObj [(''resultCode'', JStr ''9999'')])))\<rparr>
     \<lparr>stop_reads = 0, requests = 0, log = []\<rparr> ''20250101'' ''A'' ''0700''
   = Inr (False, \<lparr>stop_reads = 2, requests = 2, log = []\<rparr>)"
proof -
  let ?tr = "\<lparr>stop_reads = 0, requests = 0, log = []\<rparr>"
  let ?w1 = "\<lparr>stop_at = (\<lambda>n. False),
      reply_at = (\<lambda>n. Replied (Some (JObj [(''status'', JStr ''success'')])))\<rparr>"
  let ?w2 = "\<lparr>stop_at = (\<lambda>n. False),
      reply_at = (\<lambda>n. if n = 0 then Raised Timeout
                      else Replied (Some (JObj [(''resultCode'', JStr ''9999'')])))\<rparr>"
  have m1: "contains_success_marker (JObj [(''status'', JStr ''success'')])"
    by (simp add: contains_success_marker_def)
  have m2: "\<not> contains_success_marker (JObj [(''resultCode'', JStr ''9999'')])"
    by (simp add: contains_success_marker_def)
  have t: "transient (Raised Timeout :: json reply)"
    by (simp add: transient_def is_request_exception_def)
  from try_reservation_success_iff_marker
         [of ?w1 ?tr "JObj [(''status'', JStr ''success'')]" "''20250101''" "''A''" "''0700''"]
       try_reservation_success_iff_marker
         [of ?w2 ?tr "JObj [(''resultCode'', JStr ''9999'')]" "''20250101''" "''A''" "''0700''"]
       m1 m2 t
  show ?thesis by (simp add: sent_def read_stop_def)
qed

section \<open>Properties of the booking run\<close>

text \<open>
  In test mode with at least one candidate \<open>run_api_booking\<close> returns \<open>True\<close>, logs the
  first candidate as a preview and sends no request.
\<close>

lemma run_api_booking_test_mode_preview:
  assumes "test_mode inp = Some True \<or> test_mode inp = None" "target_date inp = Some d"
  shows "\<exists>shown. format_time_for_display (bk_time t) = Inr shown
     \<and> run_api_booking w tr inp (t # ts)
       = Inr (True, log_message (TestModePreview shown (course_nm t))
                 (log_message (TryingTop (min 5 (length (t # ts)))) tr))"
proof -
  obtain shown where s: "format_time_for_display (bk_time t) = Inr shown"
    using format_time_for_display_Inr by blast
  with assms show ?thesis
    by (auto simp: run_api_booking_def bind_exn_def Let_def)
qed

text \<open>
  C3. In test mode with an empty candidate list \<open>run_api_booking\<close> returns \<open>False\<close>: the
  test for an empty list at the head of the function comes before the test of the
  mode, so the branch of the test mode that returns \<open>True\<close> for an empty list is never
  reached. No request is sent.
\<close>

theorem run_api_booking_test_mode_empty:
  "run_api_booking w tr \<lparr>target_date = Some d, test_mode = Some True\<rparr> []
     = Inr (False, log_message NoMatchingTimes tr)"
  by (simp add: run_api_booking_def)

section \<open>Properties of the tee-list fetch\<close>

lemma fetch_tee_list_unfold:
  "fetch_tee_list w tr =
     (if stop_at w (stop_reads tr) then Inr ([], read_stop tr)
      else case fetch_try (reply_at w (requests tr)) of
             Inr fetched \<Rightarrow> Inr (fetched, sent (read_stop tr))
           | Inl e \<Rightarrow>
               if e = JSONDecodeError \<or> is_request_exception e
               then (if stop_at w (Suc (stop_reads tr)) then Inr ([], read_stop (sent (read_stop tr)))
                     else case fetch_try (reply_at w (Suc (requests tr))) of
                            Inr fetched \<Rightarrow> Inr (fetched, sent (read_stop (sent (read_stop tr))))
                          | Inl e' \<Rightarrow>
                              if e' = JSONDecodeError \<or> is_request_exception e' \<or> is_exception e'
                              then Inr ([], sent (read_stop (sent (read_stop tr))))
                              else Inl e')
               else if is_exception e then Inr ([], sent (read_stop tr))
               else Inl e)"
  by (simp add: fetch_tee_list_def numeral_2_eq_2 sent_def read_stop_def split: sum.splits)

lemma fetch_try_transient:
  "transient r \<longleftrightarrow> (\<exists>e. fetch_try r = Inl e \<and> (e = JSONDecodeError \<or> is_request_exception e))"
  by (auto simp: transient_def fetch_try_def is_request_exception_def
        split: reply.splits option.splits)

lemma requests_simps:
  "requests (sent tr) = Suc (requests tr)" "requests (read_stop tr) = requests tr"
  by (simp_all add: sent_def read_stop_def)

lemma fetch_try_not_transient:
  "\<not> transient r \<Longrightarrow> r \<noteq> Raised KeyboardInterrupt \<Longrightarrow>
   (\<exists>fetched. fetch_try r = Inr fetched)
   \<or> (\<exists>e. fetch_try r = Inl e \<and> e \<noteq> JSONDecodeError \<and> \<not> is_request_exception e
          \<and> is_exception e)"
  by (cases r)
     (auto simp: transient_def fetch_try_def is_exception_def split: option.splits)

lemma fetch_try_returns:
  "r \<noteq> Raised KeyboardInterrupt \<Longrightarrow>
   (\<exists>fetched. fetch_try r = Inr fetched) \<or> (\<exists>e. fetch_try r = Inl e \<and> is_exception e)"
  by (cases r) (auto simp: fetch_try_def is_exception_def split: option.splits)

text \<open>
  C7. With the stop signal not set:
  a well-formed body with a \<open>resultCode\<close> other than \<open>0000\<close> makes the fetch return the
  empty sequence after that one request;
  a transient failure of the first request (a timeout, a network or HTTP error, a body
  that is not JSON) is retried: a second request is sent and the fetch returns after
  exactly two requests, with what the second body holds when it is well-formed and with
  the empty sequence when the second request fails as well;
  any other outcome of the first request ends the fetch after that one request.
  In every run at most two requests are sent, and two only after a transient failure of
  the first.
\<close>

theorem fetch_tee_list_retries:
  "(\<not> stop_at w (stop_reads tr) \<and> reply_at w (requests tr) = Replied (Some data)
      \<and> resultCode data = Some c \<and> c \<noteq> ''0000''
      \<longrightarrow> fetch_tee_list w tr = Inr ([], sent (read_stop tr)))
   \<and> (\<not> stop_at w (stop_reads tr) \<and> transient (reply_at w (requests tr))
      \<and> \<not> stop_at w (Suc (stop_reads tr)) \<and> reply_at w (Suc (requests tr)) \<noteq> Raised KeyboardInterrupt
      \<longrightarrow> (\<exists>fetched. fetch_tee_list w tr
                        = Inr (fetched, sent (read_stop (sent (read_stop tr))))))
   \<and> (\<not> stop_at w (stop_reads tr) \<and> transient (reply_at w (requests tr))
      \<and> \<not> stop_at w (Suc (stop_reads tr)) \<and> fetch_try (reply_at w (Suc (requests tr))) = Inr fetched2
      \<longrightarrow> fetch_tee_list w tr = Inr (fetched2, sent (read_stop (sent (read_stop tr)))))
   \<and> (\<not> stop_at w (stop_reads tr) \<and> transient (reply_at w (requests tr))
      \<and> \<not> stop_at w (Suc (stop_reads tr)) \<and> transient (reply_at w (Suc (requests tr)))
      \<longrightarrow> fetch_tee_list w tr = Inr ([], sent (read_stop (sent (read_stop tr)))))
   \<and> (\<not> stop_at w (stop_reads tr) \<and> \<not> transient (reply_at w (requests tr))
      \<and> reply_at w (requests tr) \<noteq> Raised KeyboardInterrupt
      \<longrightarrow> (\<exists>fetched. fetch_tee_list w tr = Inr (fetched, sent (read_stop tr))))
   \<and> (fetch_tee_list w tr = Inr (ts, tr') \<longrightarrow> requests tr' \<le> requests tr + 2)
   \<and> (fetch_tee_list w tr = Inr (ts, tr') \<and> requests tr' = requests tr + 2
      \<longrightarrow> transient (reply_at w (requests tr)))
   \<and> (\<not> stop_at w (stop_reads tr) \<and> transient (reply_at w (requests tr))
      \<and> \<not> stop_at w (Suc (stop_reads tr)) \<and> fetch_tee_list w tr = Inr (ts, tr')
      \<longrightarrow> requests tr' = requests tr + 2)"
proof (intro conjI impI)
  assume "\<not> stop_at w (stop_reads tr) \<and> reply_at w (requests tr) = Replied (Some data)
      \<and> resultCode data = Some c \<and> c \<noteq> ''0000''"
  then show "fetch_tee_list w tr = Inr ([], sent (read_stop tr))"
    by (simp add: fetch_tee_list_unfold fetch_try_def)
next
  assume h: "\<not> stop_at w (stop_reads tr) \<and> transient (reply_at w (requests tr))
      \<and> \<not> stop_at w (Suc (stop_reads tr)) \<and> reply_at w (Suc (requests tr)) \<noteq> Raised KeyboardInterrupt"
  then obtain e where e: "fetch_try (reply_at w (requests tr)) = Inl e"
      "e = JSONDecodeError \<or> is_request_exception e"
    using fetch_try_transient by blast
  from h fetch_try_returns [of "reply_at w (Suc (requests tr))"]
  consider fetched where "fetch_try (reply_at w (Suc (requests tr))) = Inr fetched"
    | e2 where "fetch_try (reply_at w (Suc (requests tr))) = Inl e2" "is_exception e2"
    by blast
  then show "\<exists>fetched. fetch_tee_list w tr = Inr (fetched, sent (read_stop (sent (read_stop tr))))"
  proof cases
    case 1
    with h e show ?thesis by (auto simp: fetch_tee_list_unfold)
  next
    case 2
    with h e show ?thesis by (auto simp: fetch_tee_list_unfold)
  qed
next
  assume h: "\<not> stop_at w (stop_reads tr) \<and> transient (reply_at w (requests tr))
      \<and> \<not> stop_at w (Suc (stop_reads tr)) \<and> fetch_try (reply_at w (Suc (requests tr))) = Inr fetched2"
  then obtain e where e: "fetch_try (reply_at w (requests tr)) = Inl e"
      "e = JSONDecodeError \<or> is_request_exception e"
    using fetch_try_transient by blast
  with h show "fetch_tee_list w tr = Inr (fetched2, sent (read_stop (sent (read_stop tr))))"
    by (auto simp: fetch_tee_list_unfold)
next
  assume h: "\<not> stop_at w (stop_reads tr) \<and> transient (reply_at w (requests tr))
      \<and> \<not> stop_at w (Suc (stop_reads tr)) \<and> transient (reply_at w (Suc (requests tr)))"
  then obtain e where e: "fetch_try (reply_at w (requests tr)) = Inl e"
      "e = JSONDecodeError \<or> is_request_exception e"
    using fetch_try_transient by blast
  from h obtain e2 where e2: "fetch_try (reply_at w (Suc (requests tr))) = Inl e2"
      "e2 = JSONDecodeError \<or> is_request_exception e2"
    using fetch_try_transient by blast
  from h e e2 show "fetch_tee_list w tr = Inr ([], sent (read_stop (sent (read_stop tr))))"
    by (auto simp: fetch_tee_list_unfold)
next
  assume h: "\<not> stop_at w (stop_reads tr) \<and> \<not> transient (reply_at w (requests tr))
      \<and> reply_at w (requests tr) \<noteq> Raised KeyboardInterrupt"
  with fetch_try_not_transient [of "reply_at w (requests tr)"]
  consider fetched where "fetch_try (reply_at w (requests tr)) = Inr fetched"
    | e where "fetch_try (reply_at w (requests tr)) = Inl e" "e \<noteq> JSONDecodeError"
        "\<not> is_request_exception e" "is_exception e"
    by blast
  then show "\<exists>fetched. fetch_tee_list w tr = Inr (fetched, sent (read_stop tr))"
  proof cases
    case 1
    with h show ?thesis by (simp add: fetch_tee_list_unfold)
  next
    case 2
    with h show ?thesis by (simp add: fetch_tee_list_unfold)
  qed
next
  assume "fetch_tee_list w tr = Inr (ts, tr')"
  then show "requests tr' \<le> requests tr + 2"
    by (auto simp: fetch_tee_list_unfold requests_simps split: if_splits sum.splits)
next
  assume "fetch_tee_list w tr = Inr (ts, tr') \<and> requests tr' = requests tr + 2"
  then show "transient (reply_at w (requests tr))"
    unfolding fetch_try_transient
    by (auto simp: fetch_tee_list_unfold requests_simps split: if_splits sum.splits)
next
  assume "\<not> stop_at w (stop_reads tr) \<and> transient (reply_at w (requests tr))
      \<and> \<not> stop_at w (Suc (stop_reads tr)) \<and> fetch_tee_list w tr = Inr (ts, tr')"
  then show "requests tr' = requests tr + 2"
    unfolding fetch_try_transient
    by (auto simp: fetch_tee_list_unfold requests_simps split: if_splits sum.splits)
qed

theorem fetch_tee_list_retries_witness:
  "fetch_tee_list
     \<lparr>stop_at = (\<lambda>n. False),
      reply_at = (\<lambda>n. Replied (Some \<lparr>resultCode = Some ''9999'', resultMessage = None,
                                      rows = None\<rparr>))\<rparr>
     \<lparr>stop_reads = 0, requests = 0, log = []\<rparr>
   = Inr ([], \<lparr>stop_reads = 1, requests = 1, log = []\<rparr>)
   \<and> fetch_tee_list
       \<lparr>stop_at = (\<lambda>n. False),
        reply_at = (\<lambda>n. if n = 0 then Raised ConnectionError
                        else Replied (Some \<lparr>resultCode = Some ''0000'', resultMessage = None,
                                             rows = Some []\<rparr>))\<rparr>
       \<lparr>stop_reads = 0, requests = 0, log = []\<rparr>
     = Inr ([], \<lparr>stop_reads = 2, requests = 2, log = []\<rparr>)
   \<and> fetch_tee_list
       \<lparr>stop_at = (\<lambda>n. False), reply_at = (\<lambda>n. if n = 0 then Replied None else Raised Timeout)\<rparr>
       \<lparr>stop_reads = 0, requests = 0, log = []\<rparr>
     = Inr ([], \<lparr>stop_reads = 2, requests = 2, log = []\<rparr>)"
proof -
  let ?tr = "\<lparr>stop_reads = 0, requests = 0, log = []\<rparr>"
  let ?d1 = "\<lparr>resultCode = Some ''9999'', resultMessage = None, rows = None\<rparr>"
  let ?d2 = "\<lparr>resultCode = Some ''0000'', resultMessage = None, rows = Some []\<rparr>"
  let ?w1 = "\<lparr>stop_at = (\<lambda>n. False), reply_at = (\<lambda>n. Replied (Some ?d1))\<rparr>"
  let ?w2 = "\<lparr>stop_at = (\<lambda>n. False),
        reply_at = (\<lambda>n. if n = 0 then Raised ConnectionError else Replied (Some ?d2))\<rparr>"
  let ?w3 = "\<lparr>stop_at = (\<lambda>n. False),
        reply_at = (\<lambda>n. if n = 0 then Replied None else Raised Timeout)\<rparr>"
  have t1: "transient (Raised ConnectionError :: tee_data reply)"
    and t2: "transient (Replied None :: tee_data reply)"
    and t3: "transient (Raised Timeout :: tee_data reply)"
    by (simp_all add: transient_def is_request_exception_def)
  have b: "fetch_try (Replied (Some ?d2)) = Inr []"
    by (simp add: fetch_try_def)
  from fetch_tee_list_retries [of ?w1 ?tr ?d1 "''9999''"]
       fetch_tee_list_retries [of ?w2 ?tr _ _ "[]"]
       fetch_tee_list_retries [of ?w3 ?tr]
       t1 t2 t3 b
  show ?thesis by (simp add: sent_def read_stop_def)
qed

section \<open>Properties of the clock offset\<close>

lemma probe_failed_try:
  "probe_failed p \<Longrightarrow>
   probe_try p = Inr None \<or> (\<exists>e. probe_try p = Inl e \<and> is_request_exception e)"
  by (auto simp: probe_failed_def probe_try_def split: probe.splits)

lemma offset_attempts_all_failed:
  "(\<forall>i. a \<le> i \<and> i < a + n \<longrightarrow> probe_failed (env i)) \<Longrightarrow> offset_attempts env a n = Inr 0"
proof (induction n arbitrary: a)
  case 0
  then show ?case by simp
next
  case (Suc n)
  then have "probe_failed (env a)" by simp
  from probe_failed_try [OF this] have
    "offset_attempts env a (Suc n) = offset_attempts env (Suc a) n"
    by auto
  moreover have "offset_attempts env (Suc a) n = Inr 0"
    using Suc.prems by (intro Suc.IH) auto
  ultimately show ?case by simp
qed

text \<open>
  C8. When each of the five probes fails, by a request error or for want of a \<open>Date\<close>
  header, \<open>get_server_time_offset\<close> returns the offset 0 and raises nothing.
\<close>

theorem get_server_time_offset_all_failed:
  assumes "\<forall>i < 5. probe_failed (env i)"
  shows "get_server_time_offset env = Inr 0"
  unfolding get_server_time_offset_def using assms
  by (intro offset_attempts_all_failed) auto

theorem get_server_time_offset_all_failed_witness:
  "get_server_time_offset (\<lambda>i. if even i then NoDateHeader else ProbeRaised Timeout) = Inr 0"
proof -
  have "\<forall>i < (5::nat). probe_failed (if even i then NoDateHeader else ProbeRaised Timeout)"
    by (simp add: probe_failed_def is_request_exception_def)
  then show ?thesis by (rule get_server_time_offset_all_failed)
qed
























end
